theory Spec2Isabelle
  imports Main "HOL-Library.Word"
begin

section \<open>The IAM backend client (client/backend.go)\<close>

text \<open>
  A shallow embedding of \<^verbatim>\<open>client/backend.go\<close>. Go strings are byte strings
  (\<open>string\<close>), \<^verbatim>\<open>int64\<close> is \<open>64 word\<close> read with \<open>sint\<close>, Go's \<^verbatim>\<open>int\<close> (only
  formatted, never computed with) is \<open>int\<close>, a Go \<^verbatim>\<open>error\<close> is a message with
  the error it wraps, and a nil-pointer dereference is the outcome \<open>Panics\<close>.
  What the file calls but does not define (the JSON codec, gorequest and the network
  behind it, the process environment, the package constant \<^verbatim>\<open>defaultTimeout\<close>)
  is a field of the record \<open>extern\<close>, so every theorem holds for any behaviour of it.
  Logging and the metric callback have no part in what a call returns and are left out.
\<close>

subsection \<open>Formatting (fmt, strconv, strings)\<close>

definition digit :: "nat \<Rightarrow> char" where
  "digit n = ''0123456789'' ! (n mod 10)"

function FormatUint :: "nat \<Rightarrow> string" where
  "FormatUint n = (if n < 10 then [digit n] else FormatUint (n div 10) @ [digit n])"
  by pat_completeness auto
termination
  by (relation "measure id") auto

declare FormatUint.simps [simp del]

text \<open>\<^verbatim>\<open>%d\<close> of a signed integer: strconv.FormatInt in base 10.\<close>

definition FormatInt :: "int \<Rightarrow> string" where
  "FormatInt i = (if i < 0 then CHR ''-'' # FormatUint (nat (- i)) else FormatUint (nat i))"

text \<open>Reading a decimal numeral back (strconv.ParseUint on digits), to say that
  \<open>FormatUint\<close> writes the decimal representation.\<close>

definition digit_value :: "char \<Rightarrow> nat" where
  "digit_value ch = of_char ch - 48"

definition ParseUint :: "string \<Rightarrow> nat" where
  "ParseUint s = foldl (\<lambda>a ch. 10 * a + digit_value ch) 0 s"

text \<open>strings.Join.\<close>

fun Join :: "string list \<Rightarrow> string \<Rightarrow> string" where
  "Join [] sep = []"
| "Join [x] sep = x"
| "Join (x # y # ys) sep = x @ sep @ Join (y # ys) sep"

text \<open>\<^verbatim>\<open>%s\<close> and \<^verbatim>\<open>%v\<close> of a slice: the elements, space separated, in brackets.\<close>

definition fmt_slice :: "string list \<Rightarrow> string" where
  "fmt_slice xs = ''['' @ Join xs '' '' @ '']''"

text \<open>\<^verbatim>\<open>%v\<close> of a \<^verbatim>\<open>[]byte\<close> (json.RawMessage has no String method): the bytes
  in decimal.\<close>

definition fmt_bytes :: "string \<Rightarrow> string" where
  "fmt_bytes bs = fmt_slice (map (\<lambda>b. FormatUint (of_char b)) bs)"

text \<open>strings.TrimRight: drops every trailing byte that occurs in the cutset (the cutset
  used here is the single ASCII byte \<^verbatim>\<open>/\<close>).\<close>

definition TrimRight :: "string \<Rightarrow> string \<Rightarrow> string" where
  "TrimRight s cutset = rev (dropWhile (\<lambda>ch. ch \<in> set cutset) (rev s))"

text \<open>strings.HasPrefix and strings.Contains, to speak about what a message contains.\<close>

fun HasPrefix :: "string \<Rightarrow> string \<Rightarrow> bool" where
  "HasPrefix s [] = True"
| "HasPrefix [] (y # ys) = False"
| "HasPrefix (x # xs) (y # ys) = (x = y \<and> HasPrefix xs ys)"

fun Contains :: "string \<Rightarrow> string \<Rightarrow> bool" where
  "Contains [] sub = (sub = [])"
| "Contains (x # xs) sub = (HasPrefix (x # xs) sub \<or> Contains xs sub)"

subsection \<open>Values, errors, outcomes\<close>

text \<open>What json.Unmarshal stores in an \<^verbatim>\<open>interface{}\<close>; the client never looks
  inside a number.\<close>

typedecl float64

datatype any =
    VNil
  | VBool bool
  | VFloat64 float64
  | VString string
  | VSlice "any list"
  | VMap "string \<Rightarrow> any option"

text \<open>A Go error: its \<^verbatim>\<open>Error()\<close> text and, when built with \<^verbatim>\<open>%w\<close>, the error
  it wraps.\<close>

datatype error = Error (Error_msg: string) (Unwrap: "error option")

definition errors_New :: "string \<Rightarrow> error" where
  "errors_New s = Error s None"

datatype 'a outcome = Panics string | Returns 'a

type_synonym Duration = "64 word"

definition Second :: Duration where
  "Second = 1000000000"

subsection \<open>The response envelope\<close>

record IAMBackendBaseResponse =
  Code :: int
  Message :: string
  Data :: string

definition IAMBackendBaseResponse_Error :: "IAMBackendBaseResponse \<Rightarrow> error option" where
  "IAMBackendBaseResponse_Error r =
     (if Code r = 0 then None
      else Some (Error (''response error[code=`'' @ FormatInt (Code r) @ ''`,  message=`''
                        @ Message r @ ''`]'') None))"

subsection \<open>gorequest: the request under construction\<close>

text \<open>url.Values: each key holds the list of its values; \<^verbatim>\<open>Add\<close> appends.\<close>

type_synonym Values = "string \<Rightarrow> string list"

definition Values_Add :: "string \<Rightarrow> string \<Rightarrow> Values \<Rightarrow> Values" where
  "Values_Add k v q = q(k := q k @ [v])"

text \<open>The fields of gorequest's SuperAgent the client sets. Header names are kept as
  the source spells them.\<close>

record SuperAgent =
  Timeout :: Duration
  Method :: string
  Url :: string
  Header :: "string \<rightharpoonup> string"
  BodyData :: "any option"
  QueryData :: Values

record Response =
  StatusCode :: int

text \<open>The collaborators outside the file.\<close>

record extern =
  Getenv :: "string \<Rightarrow> string"
  defaultTimeout :: Duration
  json_Marshal :: "(string \<rightharpoonup> string) \<Rightarrow> error + string"
  Unmarshal_map :: "string \<Rightarrow> error + (string \<rightharpoonup> any)"
  Unmarshal_slice :: "string \<Rightarrow> error + (string \<rightharpoonup> any) list"
  query_pairs :: "any \<Rightarrow> (string \<times> string) list"
  EndStruct :: "SuperAgent \<Rightarrow> Response option \<times> string \<times> error list \<times> IAMBackendBaseResponse"
  EndBytes :: "SuperAgent \<Rightarrow> Response option \<times> string \<times> error list"

definition gorequest_New :: SuperAgent where
  "gorequest_New =
     \<lparr>Timeout = 0, Method = [], Url = [], Header = Map.empty, BodyData = None,
      QueryData = (\<lambda>k. [])\<rparr>"

text \<open>\<^verbatim>\<open>Post\<close> and \<^verbatim>\<open>Get\<close> clear the agent (the client's timeout stays) and set
  the method and the target.\<close>

definition agent_Post :: "string \<Rightarrow> SuperAgent \<Rightarrow> SuperAgent" where
  "agent_Post target s = gorequest_New\<lparr>Timeout := Timeout s, Method := ''POST'', Url := target\<rparr>"

definition agent_Get :: "string \<Rightarrow> SuperAgent \<Rightarrow> SuperAgent" where
  "agent_Get target s = gorequest_New\<lparr>Timeout := Timeout s, Method := ''GET'', Url := target\<rparr>"

definition agent_Send :: "any \<Rightarrow> SuperAgent \<Rightarrow> SuperAgent" where
  "agent_Send content s = s\<lparr>BodyData := Some content\<rparr>"

text \<open>\<^verbatim>\<open>Query\<close> adds to the query data the pairs gorequest derives from the content.\<close>

definition agent_Query :: "extern \<Rightarrow> any \<Rightarrow> SuperAgent \<Rightarrow> SuperAgent" where
  "agent_Query ext content s =
     s\<lparr>QueryData := foldl (\<lambda>q (k, v). Values_Add k v q) (QueryData s) (query_pairs ext content)\<rparr>"

definition agent_Timeout :: "Duration \<Rightarrow> SuperAgent \<Rightarrow> SuperAgent" where
  "agent_Timeout d s = s\<lparr>Timeout := d\<rparr>"

subsection \<open>The client\<close>

definition bkIAMVersion :: string where
  "bkIAMVersion = ''1''"

definition POST :: string where
  "POST = ''POST''"

definition GET :: string where
  "GET = ''GET''"

record iamBackendClient =
  Host :: string
  IsAPIGateway :: bool
  System :: string
  appCode :: string
  appSecret :: string
  isApiDebugEnabled :: bool
  isApiForceEnabled :: bool

definition NewIAMBackendClient ::
  "extern \<Rightarrow> string \<Rightarrow> bool \<Rightarrow> string \<Rightarrow> string \<Rightarrow> string \<Rightarrow> iamBackendClient" where
  "NewIAMBackendClient ext host isAPIGateway system appCode' appSecret' =
     \<lparr>Host = TrimRight host ''/'',
      IsAPIGateway = isAPIGateway,
      System = system,
      appCode = appCode',
      appSecret = appSecret',
      isApiDebugEnabled =
        (Getenv ext ''IAM_API_DEBUG'' = ''true'' \<or> Getenv ext ''BKAPP_IAM_API_DEBUG'' = ''true''),
      isApiForceEnabled =
        (Getenv ext ''IAM_API_FORCE'' = ''true'' \<or> Getenv ext ''BKAPP_IAM_API_FORCE'' = ''true'')\<rparr>"

subsection \<open>The dispatcher \<^verbatim>\<open>call\<close>\<close>

text \<open>Lines 124 to 127: the timeout argument counts seconds, a \<open>Duration\<close> counts
  nanoseconds in an \<^verbatim>\<open>int64\<close>, and the product wraps.\<close>

definition call_timeout :: "extern \<Rightarrow> 64 word \<Rightarrow> Duration" where
  "call_timeout ext timeout = (if timeout = 0 then defaultTimeout ext else timeout * Second)"

text \<open>Lines 129 to 146: the version header and one of the two credential layouts; a
  failing json.Marshal ends the call before any request exists.\<close>

definition call_headers :: "extern \<Rightarrow> iamBackendClient \<Rightarrow> error + (string \<rightharpoonup> string)" where
  "call_headers ext c =
     (let headers = [''X-Bk-IAM-Version'' \<mapsto> bkIAMVersion] in
      if IsAPIGateway c then
        (case json_Marshal ext [''bk_app_code'' \<mapsto> appCode c, ''bk_app_secret'' \<mapsto> appSecret c] of
           Inl err \<Rightarrow>
             Inl (Error (''generate apigateway call header fail. err=`'' @ Error_msg err @ ''`'') None)
         | Inr auth \<Rightarrow> Inr (headers(''X-Bkapi-Authorization'' \<mapsto> auth)))
      else Inr (headers(''X-BK-APP-CODE'' \<mapsto> appCode c, ''X-BK-APP-SECRET'' \<mapsto> appSecret c)))"

text \<open>Lines 124 to 173: the request handed to gorequest. A method that is neither POST
  nor GET matches no case of the switch and leaves the agent without method and target.\<close>

definition call_request ::
  "extern \<Rightarrow> iamBackendClient \<Rightarrow> string \<Rightarrow> string \<Rightarrow> any \<Rightarrow> 64 word \<Rightarrow> error + SuperAgent" where
  "call_request ext c method path data timeout =
     (let callTimeout = call_timeout ext timeout in
      case call_headers ext c of
        Inl err \<Rightarrow> Inl err
      | Inr headers \<Rightarrow>
          (let url = Host c @ path;
               request = agent_Timeout callTimeout gorequest_New;
               request = (if method = POST then agent_Send data (agent_Post url request)
                          else if method = GET then agent_Query ext data (agent_Get url request)
                          else request);
               request = (if isApiDebugEnabled c
                          then request\<lparr>QueryData := Values_Add ''debug'' ''true'' (QueryData request)\<rparr>
                          else request);
               request = (if isApiForceEnabled c
                          then request\<lparr>QueryData := Values_Add ''force'' ''true'' (QueryData request)\<rparr>
                          else request)
           in Inr (request\<lparr>Header := Header request ++ headers\<rparr>)))"

text \<open>Lines 186 to 208: what the call returns for the answer of \<^verbatim>\<open>EndStruct\<close>.
  Line 186 reads \<^verbatim>\<open>resp.StatusCode\<close> before any check, so a nil response panics.
  The last argument stands for the destination pointer: it decodes the payload into the
  destination's shape.\<close>

definition call_response ::
  "Response option \<times> string \<times> error list \<times> IAMBackendBaseResponse \<Rightarrow>
   (string \<Rightarrow> error + 'a) \<Rightarrow> (error + 'a) outcome" where
  "call_response answer decode =
     (case answer of (resp, respBody, errs, baseResult) \<Rightarrow>
        (case resp of
           None \<Rightarrow> Panics ''invalid memory address or nil pointer dereference''
         | Some rsp \<Rightarrow>
             if errs \<noteq> [] then
               Returns (Inl (Error (''gorequest errors=`'' @ fmt_slice (map Error_msg errs) @ ''`'') None))
             else if StatusCode rsp \<noteq> 200 then
               (let err = Error (''gorequest statusCode is '' @ FormatInt (StatusCode rsp)
                                 @ '' not 200'') None
                in Returns (Inl (if Message baseResult \<noteq> []
                                 then Error (Error_msg err @ ''. response body.code: ''
                                             @ FormatInt (Code baseResult) @ '', message:''
                                             @ Message baseResult) (Some err)
                                 else err)))
             else if Code baseResult \<noteq> 0 then
               Returns (Inl (Error (''response body.code: '' @ FormatInt (Code baseResult)
                                    @ '', message:'' @ Message baseResult) None))
             else
               (case decode (Data baseResult) of
                  Inl err \<Rightarrow>
                    Returns (Inl (Error (''http request response body data not valid: ''
                                         @ Error_msg err @ '', data=`''
                                         @ fmt_bytes (Data baseResult) @ ''`'') (Some err)))
                | Inr v \<Rightarrow> Returns (Inr v))))"

text \<open>A call yields the requests it hands to gorequest and what it returns: the error,
  or the value decoded into the destination.\<close>

definition call ::
  "extern \<Rightarrow> iamBackendClient \<Rightarrow> string \<Rightarrow> string \<Rightarrow> any \<Rightarrow> 64 word \<Rightarrow>
   (string \<Rightarrow> error + 'a) \<Rightarrow> SuperAgent list \<times> (error + 'a) outcome" where
  "call ext c method path data timeout decode =
     (case call_request ext c method path data timeout of
        Inl err \<Rightarrow> ([], Returns (Inl err))
      | Inr request \<Rightarrow> ([request], call_response (EndStruct ext request) decode))"

definition callWithReturnMapData ::
  "extern \<Rightarrow> iamBackendClient \<Rightarrow> string \<Rightarrow> string \<Rightarrow> any \<Rightarrow> 64 word \<Rightarrow>
   SuperAgent list \<times> ((string \<rightharpoonup> any) \<times> error option) outcome" where
  "callWithReturnMapData ext c method path data timeout =
     (case call ext c method path data timeout (Unmarshal_map ext) of
        (sent, Panics p) \<Rightarrow> (sent, Panics p)
      | (sent, Returns (Inl err)) \<Rightarrow> (sent, Returns (Map.empty, Some err))
      | (sent, Returns (Inr responseData)) \<Rightarrow> (sent, Returns (responseData, None)))"

definition callWithReturnSliceMapData ::
  "extern \<Rightarrow> iamBackendClient \<Rightarrow> string \<Rightarrow> string \<Rightarrow> any \<Rightarrow> 64 word \<Rightarrow>
   SuperAgent list \<times> ((string \<rightharpoonup> any) list \<times> error option) outcome" where
  "callWithReturnSliceMapData ext c method path data timeout =
     (case call ext c method path data timeout (Unmarshal_slice ext) of
        (sent, Panics p) \<Rightarrow> (sent, Panics p)
      | (sent, Returns (Inl err)) \<Rightarrow> (sent, Returns ([], Some err))
      | (sent, Returns (Inr responseData)) \<Rightarrow> (sent, Returns (responseData, None)))"

subsection \<open>The endpoint methods\<close>

text \<open>\<^verbatim>\<open>Ping\<close> builds its own request: a GET of the ping path with the default
  timeout, and nothing else set.\<close>

definition Ping :: "extern \<Rightarrow> iamBackendClient \<Rightarrow> SuperAgent list \<times> error option outcome" where
  "Ping ext c =
     (let url = Host c @ ''/ping'';
          request = agent_Get url (agent_Timeout (defaultTimeout ext) gorequest_New)
      in ([request],
          case EndBytes ext request of (resp, body, errs) \<Rightarrow>
            if errs \<noteq> [] then
              Returns (Some (Error (''ping fail! errs='' @ fmt_slice (map Error_msg errs)) None))
            else
              (case resp of
                 None \<Rightarrow> Panics ''invalid memory address or nil pointer dereference''
               | Some rsp \<Rightarrow>
                   if StatusCode rsp \<noteq> 200 then
                     Returns (Some (Error (''ping fail! status_code='' @ FormatInt (StatusCode rsp)) None))
                   else Returns None)))"

text \<open>\<^verbatim>\<open>GetToken\<close> and \<^verbatim>\<open>GetApplyURL\<close> pick one field out of the decoded mapping;
  the second \<^verbatim>\<open>ok\<close> is the type assertion to \<^verbatim>\<open>string\<close>.\<close>

definition GetToken ::
  "extern \<Rightarrow> iamBackendClient \<Rightarrow> SuperAgent list \<times> (string \<times> error option) outcome" where
  "GetToken ext c =
     (let path = ''/api/v1/model/systems/'' @ System c @ ''/token'' in
      case callWithReturnMapData ext c GET path (VMap Map.empty) 10 of
        (sent, Panics p) \<Rightarrow> (sent, Panics p)
      | (sent, Returns (data, Some err)) \<Rightarrow> (sent, Returns ([], Some err))
      | (sent, Returns (data, None)) \<Rightarrow>
          (sent, Returns
            (case data ''token'' of
               None \<Rightarrow> ([], Some (errors_New ''no token in response body''))
             | Some tokenI \<Rightarrow>
                 (case tokenI of
                    VString token \<Rightarrow> (token, None)
                  | _ \<Rightarrow> ([], Some (errors_New ''token is not a valid string''))))))"

definition GetApplyURL ::
  "extern \<Rightarrow> iamBackendClient \<Rightarrow> any \<Rightarrow> SuperAgent list \<times> (string \<times> error option) outcome" where
  "GetApplyURL ext c body =
     (let path = ''/api/v1/open/application/'' in
      case callWithReturnMapData ext c POST path body 10 of
        (sent, Panics p) \<Rightarrow> (sent, Panics p)
      | (sent, Returns (data, Some err)) \<Rightarrow> (sent, Returns ([], Some err))
      | (sent, Returns (data, None)) \<Rightarrow>
          (sent, Returns
            (case data ''url'' of
               None \<Rightarrow> ([], Some (errors_New ''no url in response body''))
             | Some urlI \<Rightarrow>
                 (case urlI of
                    VString url \<Rightarrow> (url, None)
                  | _ \<Rightarrow> ([], Some (errors_New ''url is not a valid string''))))))"

definition PolicyQuery ::
  "extern \<Rightarrow> iamBackendClient \<Rightarrow> any \<Rightarrow> SuperAgent list \<times> ((string \<rightharpoonup> any) \<times> error option) outcome" where
  "PolicyQuery ext c body =
     (let path = ''/api/v1/policy/query'' in callWithReturnMapData ext c POST path body 10)"

definition V2PolicyQuery ::
  "extern \<Rightarrow> iamBackendClient \<Rightarrow> string \<Rightarrow> any \<Rightarrow> SuperAgent list \<times> ((string \<rightharpoonup> any) \<times> error option) outcome" where
  "V2PolicyQuery ext c system body =
     (let path = ''/api/v2/policy/systems/'' @ system @ ''/query/'' in callWithReturnMapData ext c POST path body 10)"

definition PolicyQueryByActions ::
  "extern \<Rightarrow> iamBackendClient \<Rightarrow> any \<Rightarrow> SuperAgent list \<times> ((string \<rightharpoonup> any) list \<times> error option) outcome" where
  "PolicyQueryByActions ext c body =
     (let path = ''/api/v1/policy/query_by_actions'' in callWithReturnSliceMapData ext c POST path body 10)"

definition V2PolicyQueryByActions ::
  "extern \<Rightarrow> iamBackendClient \<Rightarrow> string \<Rightarrow> any \<Rightarrow> SuperAgent list \<times> ((string \<rightharpoonup> any) list \<times> error option) outcome" where
  "V2PolicyQueryByActions ext c system body =
     (let path = ''/api/v2/policy/systems/'' @ system @ ''/query_by_actions/'' in callWithReturnSliceMapData ext c POST path body 10)"

definition PolicyAuth ::
  "extern \<Rightarrow> iamBackendClient \<Rightarrow> any \<Rightarrow> SuperAgent list \<times> ((string \<rightharpoonup> any) \<times> error option) outcome" where
  "PolicyAuth ext c body =
     (let path = ''/api/v1/policy/auth'' in callWithReturnMapData ext c POST path body 10)"

definition V2PolicyAuth ::
  "extern \<Rightarrow> iamBackendClient \<Rightarrow> string \<Rightarrow> any \<Rightarrow> SuperAgent list \<times> ((string \<rightharpoonup> any) \<times> error option) outcome" where
  "V2PolicyAuth ext c system body =
     (let path = ''/api/v2/policy/systems/'' @ system @ ''/auth/'' in callWithReturnMapData ext c POST path body 10)"

definition PolicyAuthByResources ::
  "extern \<Rightarrow> iamBackendClient \<Rightarrow> any \<Rightarrow> SuperAgent list \<times> ((string \<rightharpoonup> any) \<times> error option) outcome" where
  "PolicyAuthByResources ext c body =
     (let path = ''/api/v1/policy/auth_by_resources'' in callWithReturnMapData ext c POST path body 10)"

definition PolicyAuthByActions ::
  "extern \<Rightarrow> iamBackendClient \<Rightarrow> any \<Rightarrow> SuperAgent list \<times> ((string \<rightharpoonup> any) \<times> error option) outcome" where
  "PolicyAuthByActions ext c body =
     (let path = ''/api/v1/policy/auth_by_actions'' in callWithReturnMapData ext c POST path body 10)"

definition PolicyGet ::
  "extern \<Rightarrow> iamBackendClient \<Rightarrow> 64 word \<Rightarrow> SuperAgent list \<times> ((string \<rightharpoonup> any) \<times> error option) outcome" where
  "PolicyGet ext c policyID =
     (let path = ''/api/v1/systems/'' @ System c @ ''/policies/'' @ FormatInt (sint policyID) in callWithReturnMapData ext c GET path (VMap Map.empty) 10)"

definition PolicyList ::
  "extern \<Rightarrow> iamBackendClient \<Rightarrow> any \<Rightarrow> SuperAgent list \<times> ((string \<rightharpoonup> any) \<times> error option) outcome" where
  "PolicyList ext c body =
     (let path = ''/api/v1/systems/'' @ System c @ ''/policies'' in callWithReturnMapData ext c GET path body 10)"

text \<open>Modelled from the spec: \<^verbatim>\<open>util.Int64ArrayToString\<close> is not among the sources.
  The spec has it serialize a sequence of integer identifiers into a string joined by the
  separator, each identifier in decimal.\<close>

definition Int64ArrayToString :: "64 word list \<Rightarrow> string \<Rightarrow> string" where
  "Int64ArrayToString input sep = Join (map (\<lambda>v. FormatInt (sint v)) input) sep"

definition PolicySubjects ::
  "extern \<Rightarrow> iamBackendClient \<Rightarrow> 64 word list \<Rightarrow>
   SuperAgent list \<times> ((string \<rightharpoonup> any) list \<times> error option) outcome" where
  "PolicySubjects ext c policyIDs =
     (let path = ''/api/v1/systems/'' @ System c @ ''/policies/-/subjects'';
          body = VMap [''ids'' \<mapsto> VString (Int64ArrayToString policyIDs '','')]
      in callWithReturnSliceMapData ext c GET path body 10)"

text \<open>The methods of the interface \<^verbatim>\<open>IAMBackendClient\<close> with their arguments, and
  the requests each of them hands to gorequest.\<close>

datatype operation =
    OpPing
  | OpGetToken
  | OpPolicyQuery any
  | OpPolicyQueryByActions any
  | OpV2PolicyQuery string any
  | OpV2PolicyQueryByActions string any
  | OpV2PolicyAuth string any
  | OpPolicyAuth any
  | OpPolicyAuthByResources any
  | OpPolicyAuthByActions any
  | OpPolicyGet "64 word"
  | OpPolicyList any
  | OpPolicySubjects "64 word list"
  | OpGetApplyURL any

fun requests :: "extern \<Rightarrow> iamBackendClient \<Rightarrow> operation \<Rightarrow> SuperAgent list" where
  "requests ext c OpPing = fst (Ping ext c)"
| "requests ext c OpGetToken = fst (GetToken ext c)"
| "requests ext c (OpPolicyQuery body) = fst (PolicyQuery ext c body)"
| "requests ext c (OpPolicyQueryByActions body) = fst (PolicyQueryByActions ext c body)"
| "requests ext c (OpV2PolicyQuery system body) = fst (V2PolicyQuery ext c system body)"
| "requests ext c (OpV2PolicyQueryByActions system body) = fst (V2PolicyQueryByActions ext c system body)"
| "requests ext c (OpV2PolicyAuth system body) = fst (V2PolicyAuth ext c system body)"
| "requests ext c (OpPolicyAuth body) = fst (PolicyAuth ext c body)"
| "requests ext c (OpPolicyAuthByResources body) = fst (PolicyAuthByResources ext c body)"
| "requests ext c (OpPolicyAuthByActions body) = fst (PolicyAuthByActions ext c body)"
| "requests ext c (OpPolicyGet policyID) = fst (PolicyGet ext c policyID)"
| "requests ext c (OpPolicyList body) = fst (PolicyList ext c body)"
| "requests ext c (OpPolicySubjects policyIDs) = fst (PolicySubjects ext c policyIDs)"
| "requests ext c (OpGetApplyURL body) = fst (GetApplyURL ext c body)"

subsection \<open>A concrete environment\<close>

text \<open>An environment whose server always answers with the given status and envelope, and
  a client built in it, to run the model on concrete inputs. gorequest turns every string
  member of a map into a query pair; a map is a function here and its members cannot be
  listed, so the \<open>query_pairs\<close> of this environment does so for the member names
  the inputs below use: \<^verbatim>\<open>debug\<close>, \<^verbatim>\<open>force\<close> and \<^verbatim>\<open>ids\<close>.\<close>

definition stub_extern :: "int \<Rightarrow> IAMBackendBaseResponse \<Rightarrow> extern" where
  "stub_extern status envelope =
     \<lparr>Getenv = (\<lambda>name. []),
      defaultTimeout = 5 * Second,
      json_Marshal = (\<lambda>m. Inr ''auth''),
      Unmarshal_map = (\<lambda>bs. if bs = ''token'' then Inr [''token'' \<mapsto> VString ''abc'']
                             else if bs = ''url'' then Inr [''url'' \<mapsto> VString ''apply'']
                             else if bs = ''flags'' then Inr [''token'' \<mapsto> VBool True, ''url'' \<mapsto> VNil]
                             else if bs = ''{}'' then Inr Map.empty
                             else Inl (errors_New ''unexpected end of JSON input'')),
      Unmarshal_slice = (\<lambda>bs. if bs = ''[]'' then Inr []
                               else if bs = ''subjects'' then Inr [[''subject'' \<mapsto> VString ''admin'']]
                               else Inl (errors_New ''unexpected end of JSON input'')),
      query_pairs = (\<lambda>content. case content of
                       VMap m \<Rightarrow>
                         concat (map (\<lambda>k. case m k of Some (VString v) \<Rightarrow> [(k, v)] | _ \<Rightarrow> [])
                                   [''debug'', ''force'', ''ids''])
                     | _ \<Rightarrow> []),
      EndStruct = (\<lambda>request. (Some \<lparr>StatusCode = status\<rparr>, [], [], envelope)),
      EndBytes = (\<lambda>request. (Some \<lparr>StatusCode = status\<rparr>, [], []))\<rparr>"

definition stub_client :: "bool \<Rightarrow> iamBackendClient" where
  "stub_client gateway =
     NewIAMBackendClient (stub_extern 200 \<lparr>Code = 0, Message = [], Data = []\<rparr>)
       ''http://iam.example//'' gateway ''demo'' ''app'' ''secret''"


section \<open>Evaluation rules\<close>

lemmas stub_defs = stub_extern_def stub_client_def NewIAMBackendClient_def TrimRight_def

lemmas request_defs = call_request_def call_headers_def call_timeout_def
  agent_Timeout_def agent_Get_def agent_Post_def agent_Send_def agent_Query_def gorequest_New_def
  GET_def POST_def bkIAMVersion_def Values_Add_def

lemmas format_defs = FormatInt_def FormatUint.simps digit_def

lemmas response_defs = call_def call_response_def callWithReturnMapData_def
  callWithReturnSliceMapData_def errors_New_def

lemma Contains_self_prefix: "HasPrefix (b @ c) b"
  by (induction b) auto

lemma Contains_append: "Contains (a @ b @ c) b"
proof (induction a)
  case Nil
  show ?case
  proof (cases "b @ c")
    case Nil then show ?thesis by simp
  next
    case (Cons x xs)
    have "HasPrefix (b @ c) b" by (rule Contains_self_prefix)
    then show ?thesis using Cons by simp
  qed
next
  case (Cons x a)
  then show ?case by simp
qed

lemma TrimRight_decompose: "\<exists>n. s = TrimRight s [ch] @ replicate n ch"
proof -
  let ?P = "\<lambda>x. x \<in> set [ch]"
  have "rev s = takeWhile ?P (rev s) @ dropWhile ?P (rev s)" by simp
  then have "s = rev (dropWhile ?P (rev s)) @ rev (takeWhile ?P (rev s))"
    by (metis rev_append rev_rev_ident)
  moreover have "takeWhile ?P (rev s) = replicate (length (takeWhile ?P (rev s))) ch"
    by (rule replicate_length_same[symmetric]) (auto dest: set_takeWhileD)
  then have "rev (takeWhile ?P (rev s)) = replicate (length (takeWhile ?P (rev s))) ch"
    by (metis rev_replicate)
  ultimately show ?thesis unfolding TrimRight_def by metis
qed

lemma TrimRight_no_suffix: "TrimRight s [ch] \<noteq> u @ [ch]"
proof
  let ?P = "\<lambda>x. x \<in> set [ch]"
  assume "TrimRight s [ch] = u @ [ch]"
  then have "dropWhile ?P (rev s) = ch # rev u"
    unfolding TrimRight_def by (metis rev_append rev_rev_ident rev_singleton_conv append_Cons append_Nil)
  then have "dropWhile ?P (rev s) \<noteq> []" and "hd (dropWhile ?P (rev s)) = ch" by simp_all
  moreover have "\<not> ?P (hd (dropWhile ?P (rev s)))" using \<open>dropWhile ?P (rev s) \<noteq> []\<close> hd_dropWhile by blast
  ultimately show False by simp
qed


section \<open>The requests the client builds\<close>

lemma call_request_Header:
  "call_request ext c method path data timeout = Inr request \<Longrightarrow>
   call_headers ext c = Inr (Header request)"
  by (auto simp: call_request_def Let_def agent_Timeout_def agent_Get_def agent_Post_def
      agent_Send_def agent_Query_def gorequest_New_def split: sum.splits if_splits)

lemma call_request_Timeout:
  "call_request ext c method path data timeout = Inr request \<Longrightarrow>
   Timeout request = call_timeout ext timeout"
  by (auto simp: call_request_def Let_def agent_Timeout_def agent_Get_def agent_Post_def
      agent_Send_def agent_Query_def gorequest_New_def split: sum.splits if_splits)

lemma call_request_Url:
  "call_request ext c method path data timeout = Inr request \<Longrightarrow>
   method = POST \<or> method = GET \<Longrightarrow>
   Url request = Host c @ path \<and> Method request = method"
  by (auto simp: call_request_def Let_def agent_Timeout_def agent_Get_def agent_Post_def
      agent_Send_def agent_Query_def gorequest_New_def GET_def POST_def split: sum.splits if_splits)

text \<open>The query data the payload of a GET contributes; a POST sends its payload as the body.\<close>

lemma call_request_QueryData:
  "call_request ext c method path data timeout = Inr request \<Longrightarrow>
   QueryData request key =
     (if method = GET then foldl (\<lambda>q (k, v). Values_Add k v q) (\<lambda>k. []) (query_pairs ext data) key
      else [])
     @ (if isApiDebugEnabled c \<and> key = ''debug'' then [''true''] else [])
     @ (if isApiForceEnabled c \<and> key = ''force'' then [''true''] else [])"
  by (auto simp: call_request_def Let_def agent_Timeout_def agent_Get_def agent_Post_def
      agent_Send_def agent_Query_def gorequest_New_def GET_def POST_def Values_Add_def
      split: sum.splits if_splits)

lemma call_request_Getenv:
  "call_request (ext\<lparr>Getenv := g\<rparr>) c method path data timeout =
   call_request ext c method path data timeout"
proof -
  have "call_headers (ext\<lparr>Getenv := g\<rparr>) c = call_headers ext c"
    by (simp add: call_headers_def cong: if_cong)
  moreover have "call_timeout (ext\<lparr>Getenv := g\<rparr>) timeout = call_timeout ext timeout"
    by (simp add: call_timeout_def)
  moreover have "\<And>url s. agent_Query (ext\<lparr>Getenv := g\<rparr>) data s = agent_Query ext data s"
    by (simp add: agent_Query_def)
  ultimately show ?thesis
    by (simp add: call_request_def cong: if_cong sum.case_cong)
qed

lemma fst_call:
  "fst (call ext c method path data timeout decode) =
   (case call_request ext c method path data timeout of Inl err \<Rightarrow> [] | Inr request \<Rightarrow> [request])"
  by (simp add: call_def split: sum.splits)

lemma fst_callWithReturnMapData:
  "fst (callWithReturnMapData ext c method path data timeout) =
   (case call_request ext c method path data timeout of Inl err \<Rightarrow> [] | Inr request \<Rightarrow> [request])"
  by (simp add: callWithReturnMapData_def call_def split: sum.splits prod.splits outcome.splits)

lemma fst_callWithReturnSliceMapData:
  "fst (callWithReturnSliceMapData ext c method path data timeout) =
   (case call_request ext c method path data timeout of Inl err \<Rightarrow> [] | Inr request \<Rightarrow> [request])"
  by (simp add: callWithReturnSliceMapData_def call_def split: sum.splits prod.splits outcome.splits)

lemma fst_GetToken:
  "fst (GetToken ext c) =
   fst (callWithReturnMapData ext c GET (''/api/v1/model/systems/'' @ System c @ ''/token'')
          (VMap Map.empty) 10)"
  by (simp add: GetToken_def split: prod.splits outcome.splits option.splits)

lemma fst_GetApplyURL:
  "fst (GetApplyURL ext c body) =
   fst (callWithReturnMapData ext c POST ''/api/v1/open/application/'' body 10)"
  by (simp add: GetApplyURL_def split: prod.splits outcome.splits option.splits)

text \<open>Every method but \<open>Ping\<close> hands gorequest what the dispatcher builds for a
  timeout argument of 10, and nothing else.\<close>

lemma requests_dispatched:
  assumes "op \<noteq> OpPing" and "request \<in> set (requests ext c op)"
  shows "\<exists>method path data. (method = POST \<or> method = GET) \<and>
           call_request ext c method path data 10 = Inr request"
  using assms
  by (cases op)
     (auto simp: fst_GetToken fst_GetApplyURL fst_callWithReturnMapData
        fst_callWithReturnSliceMapData PolicyQuery_def PolicyQueryByActions_def V2PolicyQuery_def
        V2PolicyQueryByActions_def V2PolicyAuth_def PolicyAuth_def PolicyAuthByResources_def
        PolicyAuthByActions_def PolicyGet_def PolicyList_def PolicySubjects_def
        split: sum.splits)

lemma requests_Ping:
  "requests ext c OpPing =
   [gorequest_New\<lparr>Timeout := defaultTimeout ext, Method := ''GET'', Url := Host c @ ''/ping''\<rparr>]"
  by (simp add: Ping_def agent_Get_def agent_Timeout_def Let_def)


lemma call_request_Inl:
  "call_request ext c method path data timeout = Inl e \<longleftrightarrow> call_headers ext c = Inl e"
  by (simp add: call_request_def Let_def split: sum.splits)

lemma requests_dispatched_direct:
  assumes "op \<noteq> OpPing" and "\<not> IsAPIGateway c"
  shows "requests ext c op \<noteq> []"
proof -
  have "call_request ext c m p d t \<noteq> Inl e" for m p d t e
    using assms(2) by (simp add: call_request_Inl call_headers_def)
  then have "\<exists>request. call_request ext c m p d t = Inr request" for m p d t
    by (cases "call_request ext c m p d t") auto
  then have "(case call_request ext c m p d t of Inl err \<Rightarrow> [] | Inr request \<Rightarrow> [request]) \<noteq> []"
    for m p d t
    by (metis list.distinct(1) sum.case(2))
  then show ?thesis
    using assms(1)
    by (cases op)
       (simp_all add: fst_GetToken fst_GetApplyURL fst_callWithReturnMapData
        fst_callWithReturnSliceMapData PolicyQuery_def PolicyQueryByActions_def V2PolicyQuery_def
        V2PolicyQueryByActions_def V2PolicyAuth_def PolicyAuth_def PolicyAuthByResources_def
        PolicyAuthByActions_def PolicyGet_def PolicyList_def PolicySubjects_def)
qed

lemma call_request_direct:
  assumes "\<not> IsAPIGateway c"
  shows "\<exists>request. call_request ext c method path data timeout = Inr request"
proof -
  have "call_request ext c method path data timeout \<noteq> Inl e" for e
    using assms by (simp add: call_request_Inl call_headers_def)
  then show ?thesis
    by (cases "call_request ext c method path data timeout") auto
qed

lemma stub_EndStruct:
  "EndStruct (stub_extern status envelope) request = (Some \<lparr>StatusCode = status\<rparr>, [], [], envelope)"
  by (simp add: stub_extern_def)

lemma stub_call_request:
  "call_request (stub_extern status envelope) (stub_client False) GET path (VMap Map.empty) timeout =
   Inr \<lparr>Timeout = (if timeout = 0 then 5000000000 else timeout * 1000000000),
        Method = ''GET'', Url = ''http://iam.example'' @ path,
        Header = [''X-Bk-IAM-Version'' \<mapsto> ''1'', ''X-BK-APP-CODE'' \<mapsto> ''app'',
                  ''X-BK-APP-SECRET'' \<mapsto> ''secret''],
        BodyData = None, QueryData = (\<lambda>k. [])\<rparr>"
  by (simp add: request_defs stub_defs Second_def)

lemma stub_requests_GetToken:
  "requests (stub_extern status envelope) (stub_client False) OpGetToken =
   [\<lparr>Timeout = 10000000000, Method = ''GET'',
     Url = ''http://iam.example/api/v1/model/systems/demo/token'',
     Header = [''X-Bk-IAM-Version'' \<mapsto> ''1'', ''X-BK-APP-CODE'' \<mapsto> ''app'',
               ''X-BK-APP-SECRET'' \<mapsto> ''secret''],
     BodyData = None, QueryData = (\<lambda>k. [])\<rparr>]"
proof -
  have "System (stub_client False) = ''demo''"
    by (simp add: stub_client_def NewIAMBackendClient_def)
  then show ?thesis
    by (simp add: fst_GetToken fst_callWithReturnMapData stub_call_request)
qed

section \<open>Durations and numerals\<close>


lemma sint_seconds:
  fixes t :: "64 word"
  assumes "- 9223372036 \<le> sint t" and "sint t \<le> 9223372036"
  shows "sint (t * Second) = sint t * 1000000000"
proof -
  have s: "sint Second = 1000000000"
    by (simp add: Second_def)
  have "sint (t * Second) = signed_take_bit (LENGTH(64) - 1) (sint t * sint Second)"
    by (simp add: sint_word_ariths)
  also have "\<dots> = sint t * 1000000000"
    unfolding s using assms by (intro signed_take_bit_int_eq_self) simp_all
  finally show ?thesis .
qed

lemma digit_value_digit: "digit_value (digit n) = n mod 10"
proof -
  have "n mod 10 = 0 \<or> n mod 10 = 1 \<or> n mod 10 = 2 \<or> n mod 10 = 3 \<or> n mod 10 = 4
    \<or> n mod 10 = 5 \<or> n mod 10 = 6 \<or> n mod 10 = 7 \<or> n mod 10 = 8 \<or> n mod 10 = 9"
    by arith
  then show ?thesis
    by (elim disjE) (simp_all add: digit_def digit_value_def)
qed

lemma ParseUint_FormatUint: "ParseUint (FormatUint n) = n"
proof (induction n rule: FormatUint.induct)
  case (1 n)
  show ?case
  proof (cases "n < 10")
    case True
    then show ?thesis
      by (simp add: FormatUint.simps [of n] ParseUint_def digit_value_digit)
  next
    case False
    then have "ParseUint (FormatUint (n div 10)) = n div 10"
      using 1 by simp
    then show ?thesis
      using False by (simp add: FormatUint.simps [of n] ParseUint_def digit_value_digit)
  qed
qed

lemma FormatInt_small: "FormatInt 1 = ''1''" "FormatInt 2 = ''2''" "FormatInt 3 = ''3''"
  by (simp_all add: format_defs)

section \<open>C1: envelope errors\<close>

text \<open>
  C1, as stated, fails: for an answer of status 500 whose envelope has code 7 and an empty
  message, the dispatcher returns the status error alone, and its text does not contain
  the code.
\<close>

theorem envelope_code_lost_counterexample:
  "snd (call (stub_extern 500 \<lparr>Code = 7, Message = [], Data = []\<rparr>) (stub_client False)
          GET ''/p'' (VMap Map.empty) 10
          (Unmarshal_map (stub_extern 500 \<lparr>Code = 7, Message = [], Data = []\<rparr>)))
     = Returns (Inl (Error ''gorequest statusCode is 500 not 200'' None)) \<and>
   \<not> Contains ''gorequest statusCode is 500 not 200'' (FormatInt 7)"
  by (simp add: call_def call_response_def stub_call_request stub_EndStruct format_defs)

text \<open>
  C1, amended. When the body of the answer to a dispatched call parsed as an envelope with
  a code other than 0, the call returns an error. If the status is 200 or the envelope's
  message is not empty, the text of that error ends with the envelope's code and message
  (\<^verbatim>\<open>response body.code: C, message:M\<close>). If the status is not 200 and the message is
  empty, the error is the status error alone.
\<close>

theorem envelope_code_message_error:
  assumes "call_request ext c method path data timeout = Inr request"
    and "EndStruct ext request = (Some rsp, respBody, [], baseResult)"
    and "Code baseResult \<noteq> 0"
  shows "(StatusCode rsp = 200 \<or> Message baseResult \<noteq> [] \<longrightarrow>
      (\<exists>err prefix. snd (call ext c method path data timeout decode) = Returns (Inl err) \<and>
         Error_msg err = prefix @ ''response body.code: '' @ FormatInt (Code baseResult)
                         @ '', message:'' @ Message baseResult \<and>
         Contains (Error_msg err) (FormatInt (Code baseResult)) \<and>
         Contains (Error_msg err) (Message baseResult))) \<and>
    (StatusCode rsp \<noteq> 200 \<and> Message baseResult = [] \<longrightarrow>
       snd (call ext c method path data timeout decode) =
         Returns (Inl (Error (''gorequest statusCode is '' @ FormatInt (StatusCode rsp)
                              @ '' not 200'') None)))"
proof -
  let ?tail = "''response body.code: '' @ FormatInt (Code baseResult) @ '', message:''
               @ Message baseResult"
  have contains: "Contains (prefix @ ?tail) (FormatInt (Code baseResult)) \<and>
      Contains (prefix @ ?tail) (Message baseResult)" for prefix
  proof
    have "Contains ((prefix @ ''response body.code: '') @ FormatInt (Code baseResult)
        @ ('', message:'' @ Message baseResult)) (FormatInt (Code baseResult))"
      by (rule Contains_append)
    then show "Contains (prefix @ ?tail) (FormatInt (Code baseResult))" by simp
    have "Contains ((prefix @ ''response body.code: '' @ FormatInt (Code baseResult)
        @ '', message:'') @ Message baseResult @ []) (Message baseResult)"
      by (rule Contains_append)
    then show "Contains (prefix @ ?tail) (Message baseResult)" by simp
  qed
  have ok: "snd (call ext c method path data timeout decode) =
      Returns (Inl (Error ([] @ ?tail) None))" if "StatusCode rsp = 200"
    using assms that by (simp add: call_def call_response_def)
  have wrapped: "snd (call ext c method path data timeout decode) =
      Returns (Inl (Error ((''gorequest statusCode is '' @ FormatInt (StatusCode rsp)
          @ '' not 200. '') @ ?tail)
        (Some (Error (''gorequest statusCode is '' @ FormatInt (StatusCode rsp) @ '' not 200'')
           None))))"
    if "StatusCode rsp \<noteq> 200" "Message baseResult \<noteq> []"
    using assms that by (simp add: call_def call_response_def)
  have bare: "snd (call ext c method path data timeout decode) =
      Returns (Inl (Error (''gorequest statusCode is '' @ FormatInt (StatusCode rsp)
         @ '' not 200'') None))"
    if "StatusCode rsp \<noteq> 200" "Message baseResult = []"
    using assms that by (simp add: call_def call_response_def)
  show ?thesis
  proof (intro conjI impI)
    assume "StatusCode rsp = 200 \<or> Message baseResult \<noteq> []"
    then consider "StatusCode rsp = 200" | "StatusCode rsp \<noteq> 200" "Message baseResult \<noteq> []"
      by blast
    then show "\<exists>err prefix. snd (call ext c method path data timeout decode) = Returns (Inl err) \<and>
         Error_msg err = prefix @ ?tail \<and>
         Contains (Error_msg err) (FormatInt (Code baseResult)) \<and>
         Contains (Error_msg err) (Message baseResult)"
    proof cases
      case 1
      show ?thesis
        using ok [OF 1] contains [of "[]"] by (metis error.sel(1))
    next
      case 2
      show ?thesis
        using wrapped [OF 2] contains by (metis error.sel(1))
    qed
  next
    assume "StatusCode rsp \<noteq> 200 \<and> Message baseResult = []"
    then show "snd (call ext c method path data timeout decode) =
         Returns (Inl (Error (''gorequest statusCode is '' @ FormatInt (StatusCode rsp)
                              @ '' not 200'') None))"
      using bare by blast
  qed
qed

theorem envelope_code_message_error_witness:
  "(\<exists>err prefix.
      snd (call (stub_extern 200 \<lparr>Code = 7, Message = ''boom'', Data = []\<rparr>) (stub_client False)
             GET ''/p'' (VMap Map.empty) 10
             (Unmarshal_map (stub_extern 200 \<lparr>Code = 7, Message = ''boom'', Data = []\<rparr>)))
        = Returns (Inl err) \<and>
      Error_msg err = prefix @ ''response body.code: 7, message:boom'' \<and>
      Contains (Error_msg err) ''7'' \<and> Contains (Error_msg err) ''boom'') \<and>
   snd (call (stub_extern 404 \<lparr>Code = 7, Message = [], Data = []\<rparr>) (stub_client False)
          GET ''/p'' (VMap Map.empty) 10
          (Unmarshal_map (stub_extern 200 \<lparr>Code = 7, Message = ''boom'', Data = []\<rparr>)))
     = Returns (Inl (Error ''gorequest statusCode is 404 not 200'' None))"
proof -
  let ?d = "Unmarshal_map (stub_extern 200 \<lparr>Code = 7, Message = ''boom'', Data = []\<rparr>)"
  note a = envelope_code_message_error [OF
      stub_call_request [of 200 "\<lparr>Code = 7, Message = ''boom'', Data = []\<rparr>" "''/p''" 10]
      stub_EndStruct, where decode = ?d]
  note b = envelope_code_message_error [OF
      stub_call_request [of 404 "\<lparr>Code = 7, Message = [], Data = []\<rparr>" "''/p''" 10]
      stub_EndStruct, where decode = ?d]
  show ?thesis
    using a b by (simp add: format_defs)
qed

section \<open>C2: a status other than 200\<close>

text \<open>
  C2. When the server answers a dispatched call with a status other than 200, the call
  returns an error. If moreover gorequest reports no error (the body parsed as an
  envelope) and the envelope's message is not empty, that error is the status error
  wrapped in one whose text goes on with the envelope's code and message.
\<close>

theorem status_not_200_error:
  assumes "call_request ext c method path data timeout = Inr request"
    and "EndStruct ext request = (Some rsp, respBody, errs, baseResult)"
    and "StatusCode rsp \<noteq> 200"
  shows "(\<exists>err. snd (call ext c method path data timeout decode) = Returns (Inl err)) \<and>
    (errs = [] \<and> Message baseResult \<noteq> [] \<longrightarrow>
       snd (call ext c method path data timeout decode) =
         Returns (Inl (Error
           (''gorequest statusCode is '' @ FormatInt (StatusCode rsp) @ '' not 200''
            @ ''. response body.code: '' @ FormatInt (Code baseResult)
            @ '', message:'' @ Message baseResult)
           (Some (Error (''gorequest statusCode is '' @ FormatInt (StatusCode rsp) @ '' not 200'')
                    None)))))"
  using assms by (simp add: call_def call_response_def Let_def)

theorem status_not_200_error_witness:
  "snd (call (stub_extern 500 \<lparr>Code = 7, Message = ''boom'', Data = []\<rparr>) (stub_client False)
          GET ''/p'' (VMap Map.empty) 10 (Unmarshal_map (stub_extern 200 \<lparr>Code = 0, Message = [], Data = []\<rparr>)))
   = Returns (Inl (Error ''gorequest statusCode is 500 not 200. response body.code: 7, message:boom''
                     (Some (Error ''gorequest statusCode is 500 not 200'' None))))"
  using status_not_200_error [OF
      stub_call_request [of 500 "\<lparr>Code = 7, Message = ''boom'', Data = []\<rparr>" "''/p''" 10]
      stub_EndStruct,
      where decode = "Unmarshal_map (stub_extern 200 \<lparr>Code = 0, Message = [], Data = []\<rparr>)"]
  by (simp add: format_defs)

section \<open>C3: credential headers\<close>

text \<open>
  C3. The headers of a request built by the dispatcher are the version header and exactly
  one credential layout, chosen by \<open>IsAPIGateway\<close>. In gateway mode the only other
  header is \<^verbatim>\<open>X-Bkapi-Authorization\<close>, whose value is what json.Marshal gives for the
  object with exactly the members \<^verbatim>\<open>bk_app_code\<close> and \<^verbatim>\<open>bk_app_secret\<close>, set to the
  configured code and secret (were json.Marshal to fail, the call would return an error
  and build no request). In direct mode a request is always built and its other headers
  are exactly \<^verbatim>\<open>X-BK-APP-CODE\<close> and \<^verbatim>\<open>X-BK-APP-SECRET\<close>, set to the configured
  code and secret.
\<close>

theorem credential_header_layouts:
  "(IsAPIGateway c \<longrightarrow>
      (case json_Marshal ext [''bk_app_code'' \<mapsto> appCode c, ''bk_app_secret'' \<mapsto> appSecret c] of
         Inl err \<Rightarrow> \<exists>e. call_request ext c method path data timeout = Inl e
       | Inr auth \<Rightarrow>
           \<exists>request. call_request ext c method path data timeout = Inr request \<and>
             Header request = [''X-Bk-IAM-Version'' \<mapsto> ''1'', ''X-Bkapi-Authorization'' \<mapsto> auth])) \<and>
   (\<not> IsAPIGateway c \<longrightarrow>
      (\<exists>request. call_request ext c method path data timeout = Inr request \<and>
         Header request = [''X-Bk-IAM-Version'' \<mapsto> ''1'', ''X-BK-APP-CODE'' \<mapsto> appCode c,
                           ''X-BK-APP-SECRET'' \<mapsto> appSecret c]))"
proof -
  have built: "\<exists>request. call_request ext c method path data timeout = Inr request \<and>
      Header request = headers" if "call_headers ext c = Inr headers" for headers
    using that
    by (simp add: call_request_def Let_def agent_Timeout_def agent_Get_def agent_Post_def
        agent_Send_def agent_Query_def gorequest_New_def)
  have failed: "\<exists>e. call_request ext c method path data timeout = Inl e"
    if "call_headers ext c = Inl err" for err
    using that by (simp add: call_request_def)
  show ?thesis
  proof (intro conjI impI)
    assume gw: "IsAPIGateway c"
    show "case json_Marshal ext [''bk_app_code'' \<mapsto> appCode c, ''bk_app_secret'' \<mapsto> appSecret c] of
         Inl err \<Rightarrow> \<exists>e. call_request ext c method path data timeout = Inl e
       | Inr auth \<Rightarrow>
           \<exists>request. call_request ext c method path data timeout = Inr request \<and>
             Header request = [''X-Bk-IAM-Version'' \<mapsto> ''1'', ''X-Bkapi-Authorization'' \<mapsto> auth]"
    proof (cases "json_Marshal ext [''bk_app_code'' \<mapsto> appCode c, ''bk_app_secret'' \<mapsto> appSecret c]")
      case (Inl err)
      then have "\<exists>e. call_headers ext c = Inl e"
        using gw by (simp add: call_headers_def)
      then show ?thesis using Inl failed by auto
    next
      case (Inr auth)
      then have "call_headers ext c =
          Inr [''X-Bk-IAM-Version'' \<mapsto> ''1'', ''X-Bkapi-Authorization'' \<mapsto> auth]"
        using gw by (simp add: call_headers_def bkIAMVersion_def)
      then show ?thesis using Inr built by simp
    qed
  next
    assume "\<not> IsAPIGateway c"
    then have "call_headers ext c =
        Inr [''X-Bk-IAM-Version'' \<mapsto> ''1'', ''X-BK-APP-CODE'' \<mapsto> appCode c,
             ''X-BK-APP-SECRET'' \<mapsto> appSecret c]"
      by (simp add: call_headers_def bkIAMVersion_def)
    then show "\<exists>request. call_request ext c method path data timeout = Inr request \<and>
         Header request = [''X-Bk-IAM-Version'' \<mapsto> ''1'', ''X-BK-APP-CODE'' \<mapsto> appCode c,
                           ''X-BK-APP-SECRET'' \<mapsto> appSecret c]"
      by (rule built)
  qed
qed

theorem credential_header_layouts_witness:
  "(\<exists>request. call_request (stub_extern 200 \<lparr>Code = 0, Message = [], Data = []\<rparr>) (stub_client True)
        POST ''/api/v1/policy/query'' VNil 10 = Inr request \<and>
      Header request = [''X-Bk-IAM-Version'' \<mapsto> ''1'', ''X-Bkapi-Authorization'' \<mapsto> ''auth'']) \<and>
   (\<exists>request. call_request (stub_extern 200 \<lparr>Code = 0, Message = [], Data = []\<rparr>) (stub_client False)
        POST ''/api/v1/policy/query'' VNil 10 = Inr request \<and>
      Header request = [''X-Bk-IAM-Version'' \<mapsto> ''1'', ''X-BK-APP-CODE'' \<mapsto> ''app'',
                        ''X-BK-APP-SECRET'' \<mapsto> ''secret''])"
proof -
  let ?e = "stub_extern 200 \<lparr>Code = 0, Message = [], Data = []\<rparr>"
  have c: "IsAPIGateway (stub_client True)" "\<not> IsAPIGateway (stub_client False)"
    "appCode (stub_client False) = ''app''" "appSecret (stub_client False) = ''secret''"
    by (simp_all add: stub_client_def NewIAMBackendClient_def)
  have m: "json_Marshal ?e m = Inr ''auth''" for m
    by (simp add: stub_extern_def)
  show ?thesis
    using credential_header_layouts [of "stub_client True" ?e POST "''/api/v1/policy/query''" VNil 10]
      credential_header_layouts [of "stub_client False" ?e POST "''/api/v1/policy/query''" VNil 10]
    by (simp add: c m)
qed

section \<open>C4: the version header\<close>

text \<open>
  C4, as stated, fails: the request of \<open>Ping\<close> carries no header
  \<^verbatim>\<open>X-Bk-IAM-Version\<close>.
\<close>

theorem Ping_version_header_counterexample:
  "map (\<lambda>request. Header request ''X-Bk-IAM-Version'')
     (requests (stub_extern 200 \<lparr>Code = 0, Message = [], Data = []\<rparr>) (stub_client False) OpPing)
   = [None]"
  by (simp add: Ping_def agent_Get_def agent_Timeout_def gorequest_New_def Let_def)

text \<open>
  C4, amended. Every request issued by a public operation other than \<open>Ping\<close> carries
  the header \<^verbatim>\<open>X-Bk-IAM-Version\<close> with value \<^verbatim>\<open>1\<close> (and in direct mode each of
  these operations does issue a request). \<open>Ping\<close> does not go through the dispatcher:
  its one request carries no header set by the client.
\<close>

theorem version_header_dispatched:
  "(op \<noteq> OpPing \<longrightarrow>
      (\<forall>request \<in> set (requests ext c op). Header request ''X-Bk-IAM-Version'' = Some ''1'')) \<and>
   (op \<noteq> OpPing \<and> \<not> IsAPIGateway c \<longrightarrow> requests ext c op \<noteq> []) \<and>
   map Header (requests ext c OpPing) = [Map.empty]"
proof -
  have "Header request ''X-Bk-IAM-Version'' = Some ''1''"
    if a: "op \<noteq> OpPing" and b: "request \<in> set (requests ext c op)" for request
  proof -
    obtain m p d where "call_request ext c m p d 10 = Inr request"
      using requests_dispatched [OF a b] by blast
    then have "call_headers ext c = Inr (Header request)"
      by (rule call_request_Header)
    moreover have "h ''X-Bk-IAM-Version'' = Some ''1''" if "call_headers ext c = Inr h" for h
      using that
      by (auto simp: call_headers_def bkIAMVersion_def Let_def split: if_splits sum.splits)
    ultimately show ?thesis
      by blast
  qed
  moreover have "map Header (requests ext c OpPing) = [Map.empty]"
    using requests_Ping [of ext c] by (simp add: gorequest_New_def)
  ultimately show ?thesis
    using requests_dispatched_direct by blast
qed

theorem version_header_dispatched_witness:
  "OpGetToken \<noteq> OpPing \<and>
   map (\<lambda>request. Header request ''X-Bk-IAM-Version'')
     (requests (stub_extern 200 \<lparr>Code = 0, Message = [], Data = []\<rparr>) (stub_client False) OpGetToken)
   = [Some ''1'']"
proof -
  let ?e = "stub_extern 200 \<lparr>Code = 0, Message = [], Data = []\<rparr>"
  obtain request where r: "requests ?e (stub_client False) OpGetToken = [request]"
    using stub_requests_GetToken by blast
  then have "Header request ''X-Bk-IAM-Version'' = Some ''1''"
    using version_header_dispatched [of OpGetToken ?e "stub_client False"] by simp
  then show ?thesis
    using r by simp
qed

section \<open>C5: field extraction\<close>

text \<open>
  C5. Whenever the dispatcher hands \<open>GetToken\<close> a decoded mapping without error, it
  returns the \<^verbatim>\<open>token\<close> member if that is a string, the error
  \<^verbatim>\<open>no token in response body\<close> with an empty token if the mapping has no such member,
  and the different error \<^verbatim>\<open>token is not a valid string\<close> with an empty token if the
  member is anything but a string. \<open>GetApplyURL\<close> does the same with the member
  \<^verbatim>\<open>url\<close>.
\<close>

theorem GetToken_GetApplyURL_field:
  "(snd (callWithReturnMapData ext c GET (''/api/v1/model/systems/'' @ System c @ ''/token'')
           (VMap Map.empty) 10) = Returns (data, None) \<longrightarrow>
      (\<forall>token. data ''token'' = Some (VString token) \<longrightarrow>
         snd (GetToken ext c) = Returns (token, None)) \<and>
      (data ''token'' = None \<longrightarrow>
         snd (GetToken ext c) = Returns ([], Some (errors_New ''no token in response body''))) \<and>
      (\<forall>v. data ''token'' = Some v \<and> (\<forall>s. v \<noteq> VString s) \<longrightarrow>
         snd (GetToken ext c) = Returns ([], Some (errors_New ''token is not a valid string'')))) \<and>
   (snd (callWithReturnMapData ext c POST ''/api/v1/open/application/'' body 10)
      = Returns (data', None) \<longrightarrow>
      (\<forall>url. data' ''url'' = Some (VString url) \<longrightarrow>
         snd (GetApplyURL ext c body) = Returns (url, None)) \<and>
      (data' ''url'' = None \<longrightarrow>
         snd (GetApplyURL ext c body) = Returns ([], Some (errors_New ''no url in response body''))) \<and>
      (\<forall>v. data' ''url'' = Some v \<and> (\<forall>s. v \<noteq> VString s) \<longrightarrow>
         snd (GetApplyURL ext c body) = Returns ([], Some (errors_New ''url is not a valid string'')))) \<and>
   errors_New ''no token in response body'' \<noteq> errors_New ''token is not a valid string'' \<and>
   errors_New ''no url in response body'' \<noteq> errors_New ''url is not a valid string''"
proof -
  have token: "snd (GetToken ext c) = Returns
      (case data ''token'' of
         None \<Rightarrow> ([], Some (errors_New ''no token in response body''))
       | Some tokenI \<Rightarrow>
           (case tokenI of VString token \<Rightarrow> (token, None)
            | _ \<Rightarrow> ([], Some (errors_New ''token is not a valid string''))))"
    if "snd (callWithReturnMapData ext c GET (''/api/v1/model/systems/'' @ System c @ ''/token'')
              (VMap Map.empty) 10) = Returns (data, None)"
    using that by (cases "callWithReturnMapData ext c GET
        (''/api/v1/model/systems/'' @ System c @ ''/token'') (VMap Map.empty) 10")
      (simp add: GetToken_def)
  have url: "snd (GetApplyURL ext c body) = Returns
      (case data' ''url'' of
         None \<Rightarrow> ([], Some (errors_New ''no url in response body''))
       | Some urlI \<Rightarrow>
           (case urlI of VString url \<Rightarrow> (url, None)
            | _ \<Rightarrow> ([], Some (errors_New ''url is not a valid string''))))"
    if "snd (callWithReturnMapData ext c POST ''/api/v1/open/application/'' body 10)
          = Returns (data', None)"
    using that by (cases "callWithReturnMapData ext c POST ''/api/v1/open/application/'' body 10")
      (simp add: GetApplyURL_def)
  have other: "(case v of VString s \<Rightarrow> f s | _ \<Rightarrow> d) = d" if "\<forall>s. v \<noteq> VString s" for v :: any
    and f :: "string \<Rightarrow> string \<times> error option" and d
    using that by (cases v) simp_all
  show ?thesis
    using token url by (auto simp: other errors_New_def)
qed

theorem GetToken_GetApplyURL_field_witness:
  "snd (GetToken (stub_extern 200 \<lparr>Code = 0, Message = [], Data = ''token''\<rparr>) (stub_client True))
     = Returns (''abc'', None) \<and>
   snd (GetToken (stub_extern 200 \<lparr>Code = 0, Message = [], Data = ''{}''\<rparr>) (stub_client True))
     = Returns ([], Some (Error ''no token in response body'' None)) \<and>
   snd (GetToken (stub_extern 200 \<lparr>Code = 0, Message = [], Data = ''flags''\<rparr>) (stub_client True))
     = Returns ([], Some (Error ''token is not a valid string'' None)) \<and>
   snd (GetApplyURL (stub_extern 200 \<lparr>Code = 0, Message = [], Data = ''url''\<rparr>) (stub_client True) VNil)
     = Returns (''apply'', None) \<and>
   snd (GetApplyURL (stub_extern 200 \<lparr>Code = 0, Message = [], Data = ''{}''\<rparr>) (stub_client True) VNil)
     = Returns ([], Some (Error ''no url in response body'' None)) \<and>
   snd (GetApplyURL (stub_extern 200 \<lparr>Code = 0, Message = [], Data = ''flags''\<rparr>) (stub_client True) VNil)
     = Returns ([], Some (Error ''url is not a valid string'' None))"
proof -
  let ?e = "\<lambda>payload. stub_extern 200 \<lparr>Code = 0, Message = [], Data = payload\<rparr>"
  let ?c = "stub_client True"
  have run: "snd (callWithReturnMapData (?e payload) ?c m p body 10) =
      Returns (case Unmarshal_map (?e payload) payload of Inr m \<Rightarrow> (m, None)
               | Inl err \<Rightarrow> (Map.empty, Some (Error (''http request response body data not valid: ''
                     @ Error_msg err @ '', data=`'' @ fmt_bytes payload @ ''`'') (Some err))))"
    for payload m p body
    by (simp add: response_defs call_request_def call_headers_def stub_extern_def stub_client_def
        NewIAMBackendClient_def Let_def split: sum.splits)
  have um: "Unmarshal_map (?e payload) bs =
      (if bs = ''token'' then Inr [''token'' \<mapsto> VString ''abc'']
       else if bs = ''url'' then Inr [''url'' \<mapsto> VString ''apply'']
       else if bs = ''flags'' then Inr [''token'' \<mapsto> VBool True, ''url'' \<mapsto> VNil]
       else if bs = ''{}'' then Inr Map.empty
       else Inl (errors_New ''unexpected end of JSON input''))" for payload bs
    by (simp add: stub_extern_def)
  have h: "snd (callWithReturnMapData (?e ''token'') ?c m p body 10)
             = Returns ([''token'' \<mapsto> VString ''abc''], None)"
    "snd (callWithReturnMapData (?e ''{}'') ?c m p body 10) = Returns (Map.empty, None)"
    "snd (callWithReturnMapData (?e ''flags'') ?c m p body 10)
             = Returns ([''token'' \<mapsto> VBool True, ''url'' \<mapsto> VNil], None)"
    "snd (callWithReturnMapData (?e ''url'') ?c m p body 10)
             = Returns ([''url'' \<mapsto> VString ''apply''], None)"
    for m p body
    by (simp_all add: run um)
  show ?thesis
    using GetToken_GetApplyURL_field [of "?e ''token''" ?c "[''token'' \<mapsto> VString ''abc'']"
        VNil "Map.empty"]
      GetToken_GetApplyURL_field [of "?e ''{}''" ?c "Map.empty" VNil "Map.empty"]
      GetToken_GetApplyURL_field [of "?e ''flags''" ?c "[''token'' \<mapsto> VBool True, ''url'' \<mapsto> VNil]"
        VNil "[''token'' \<mapsto> VBool True, ''url'' \<mapsto> VNil]"]
      GetToken_GetApplyURL_field [of "?e ''url''" ?c "Map.empty" VNil "[''url'' \<mapsto> VString ''apply'']"]
    by (simp add: h errors_New_def)
qed

section \<open>C6: policy subjects\<close>

text \<open>
  C6. \<open>PolicySubjects\<close> issues what the dispatcher builds for a GET of the subjects path
  whose payload is the map with the single member \<^verbatim>\<open>ids\<close>, a string: the decimal
  representations of the identifiers joined by commas. Each request it issues is a GET, and
  its query data is what gorequest derives from that payload, followed by the debug and
  force pairs the flags add; so where gorequest derives the one pair \<^verbatim>\<open>ids\<close> from the
  payload, the query data of the request maps \<^verbatim>\<open>ids\<close> to the joined string alone.
  For the identifiers 1, 2, 3 the string is \<^verbatim>\<open>1,2,3\<close>. (A decimal representation is
  read back by \<open>ParseUint\<close> as the number it stands for, with a minus sign in front
  for a negative identifier.)
\<close>

theorem PolicySubjects_ids:
  "requests ext c (OpPolicySubjects policyIDs) =
     (case call_request ext c GET (''/api/v1/systems/'' @ System c @ ''/policies/-/subjects'')
             (VMap [''ids'' \<mapsto> VString (Join (map (\<lambda>v. FormatInt (sint v)) policyIDs) '','')]) 10 of
        Inl err \<Rightarrow> []
      | Inr request \<Rightarrow> [request]) \<and>
   (\<forall>request \<in> set (requests ext c (OpPolicySubjects policyIDs)).
      Method request = ''GET'' \<and>
      (\<forall>key. QueryData request key =
         foldl (\<lambda>q (k, v). Values_Add k v q) (\<lambda>k. [])
           (query_pairs ext
              (VMap [''ids'' \<mapsto> VString (Join (map (\<lambda>v. FormatInt (sint v)) policyIDs) '','')]))
           key
         @ (if isApiDebugEnabled c \<and> key = ''debug'' then [''true''] else [])
         @ (if isApiForceEnabled c \<and> key = ''force'' then [''true''] else [])) \<and>
      (query_pairs ext
         (VMap [''ids'' \<mapsto> VString (Join (map (\<lambda>v. FormatInt (sint v)) policyIDs) '','')])
         = [(''ids'', Join (map (\<lambda>v. FormatInt (sint v)) policyIDs) '','')] \<longrightarrow>
       QueryData request ''ids'' = [Join (map (\<lambda>v. FormatInt (sint v)) policyIDs) '',''])) \<and>
   (\<forall>v \<in> set policyIDs.
      FormatInt (sint v) = (if sint v < 0 then ''-'' else []) @ FormatUint (nat \<bar>sint v\<bar>) \<and>
      ParseUint (FormatUint (nat \<bar>sint v\<bar>)) = nat \<bar>sint v\<bar>) \<and>
   Int64ArrayToString [1, 2, 3] '','' = ''1,2,3''"
proof -
  let ?ids = "Join (map (\<lambda>v. FormatInt (sint v)) policyIDs) '',''"
  let ?payload = "VMap [''ids'' \<mapsto> VString ?ids]"
  let ?path = "''/api/v1/systems/'' @ System c @ ''/policies/-/subjects''"
  have sent: "requests ext c (OpPolicySubjects policyIDs) =
     (case call_request ext c GET ?path ?payload 10 of Inl err \<Rightarrow> [] | Inr request \<Rightarrow> [request])"
    by (simp add: PolicySubjects_def fst_callWithReturnSliceMapData Int64ArrayToString_def)
  have built: "call_request ext c GET ?path ?payload 10 = Inr request"
    if "request \<in> set (requests ext c (OpPolicySubjects policyIDs))" for request
    using that unfolding sent by (auto split: sum.splits)
  have get: "Method request = ''GET''"
    if "request \<in> set (requests ext c (OpPolicySubjects policyIDs))" for request
    using call_request_Url [OF built [OF that]] by (simp add: GET_def)
  have query: "QueryData request key =
         foldl (\<lambda>q (k, v). Values_Add k v q) (\<lambda>k. []) (query_pairs ext ?payload) key
         @ (if isApiDebugEnabled c \<and> key = ''debug'' then [''true''] else [])
         @ (if isApiForceEnabled c \<and> key = ''force'' then [''true''] else [])"
    if "request \<in> set (requests ext c (OpPolicySubjects policyIDs))" for request key
    using call_request_QueryData [OF built [OF that], of key] by simp
  have ids: "QueryData request ''ids'' = [?ids]"
    if "request \<in> set (requests ext c (OpPolicySubjects policyIDs))"
      and "query_pairs ext ?payload = [(''ids'', ?ids)]" for request
    using query [OF that(1), of "''ids''"] that(2) by (simp add: Values_Add_def)
  have dec: "FormatInt i = (if i < 0 then ''-'' else []) @ FormatUint (nat \<bar>i\<bar>)" for i
    by (simp add: FormatInt_def)
  have lit: "Int64ArrayToString [1, 2, 3] '','' = ''1,2,3''"
    by (simp add: Int64ArrayToString_def FormatInt_small)
  show ?thesis
    using sent get query ids dec lit ParseUint_FormatUint by auto
qed

theorem PolicySubjects_ids_witness:
  "map (\<lambda>request. (Method request, Url request, QueryData request ''ids'',
                    QueryData request ''debug'', QueryData request ''force''))
     (requests (stub_extern 200 \<lparr>Code = 0, Message = [], Data = []\<rparr>) (stub_client False)
        (OpPolicySubjects [1, 2, 3]))
   = [(''GET'', ''http://iam.example/api/v1/systems/demo/policies/-/subjects'', [''1,2,3''], [], [])]"
proof -
  let ?e = "stub_extern 200 \<lparr>Code = 0, Message = [], Data = []\<rparr>"
  let ?c = "stub_client False"
  have s: "System ?c = ''demo''" "\<not> isApiDebugEnabled ?c" "\<not> isApiForceEnabled ?c"
    by (simp_all add: stub_client_def NewIAMBackendClient_def stub_extern_def)
  have q: "query_pairs ?e (VMap [''ids'' \<mapsto> VString ''1,2,3'']) = [(''ids'', ''1,2,3'')]"
    by (simp add: stub_extern_def)
  have ng: "\<not> IsAPIGateway ?c"
    by (simp add: stub_client_def NewIAMBackendClient_def)
  obtain request where r: "call_request ?e ?c GET ''/api/v1/systems/demo/policies/-/subjects''
      (VMap [''ids'' \<mapsto> VString ''1,2,3'']) 10 = Inr request"
    using call_request_direct [OF ng] by blast
  have u: "Url request = ''http://iam.example/api/v1/systems/demo/policies/-/subjects''"
    using call_request_Url [OF r] by (simp add: stub_client_def NewIAMBackendClient_def TrimRight_def)
  note T = PolicySubjects_ids [of ?e ?c "[1, 2, 3]"]
  have sent: "requests ?e ?c (OpPolicySubjects [1, 2, 3]) = [request]"
    using T r by (simp add: s FormatInt_small)
  have "Method request = ''GET''" "QueryData request ''ids'' = [''1,2,3'']"
    "QueryData request ''debug'' = []" "QueryData request ''force'' = []"
    using T sent q by (simp_all add: s FormatInt_small Values_Add_def)
  then show ?thesis
    using sent u by simp
qed

section \<open>C7: timeouts\<close>

text \<open>
  C7, as stated, fails: the timeout argument is multiplied by 10^9 in an \<^verbatim>\<open>int64\<close>,
  so for 9223372037 seconds the product wraps and the request gets a negative duration
  instead of 9223372037 seconds.
\<close>

theorem timeout_wraps_counterexample:
  "map_sum Error_msg (\<lambda>request. sint (Timeout request))
     (call_request (stub_extern 200 \<lparr>Code = 0, Message = [], Data = []\<rparr>) (stub_client False)
        GET ''/p'' (VMap Map.empty) 9223372037)
     = Inr (- 9223372036709551616) \<and>
   sint (9223372037 :: 64 word) * 1000000000 = 9223372037000000000"
  by (simp add: stub_call_request)

text \<open>
  C7, amended. A request built by the dispatcher has the default timeout constant when the
  timeout argument is 0, and a timeout of \<open>t\<close> seconds (\<open>t\<close> times 10^9 nanoseconds)
  when the argument is \<open>t \<noteq> 0\<close> and that many nanoseconds fit an \<^verbatim>\<open>int64\<close>, that is
  for \<open>t\<close> between -9223372036 and 9223372036. Every public operation other than
  \<open>Ping\<close> passes 10, so its request has a timeout of 10 seconds; the request of
  \<open>Ping\<close> has the default timeout constant.
\<close>

theorem timeout_seconds:
  "(call_request ext c method path data timeout = Inr request \<longrightarrow>
      (timeout = 0 \<longrightarrow> Timeout request = defaultTimeout ext) \<and>
      (timeout \<noteq> 0 \<and> - 9223372036 \<le> sint timeout \<and> sint timeout \<le> 9223372036 \<longrightarrow>
         sint (Timeout request) = sint timeout * 1000000000)) \<and>
   (op \<noteq> OpPing \<longrightarrow>
      (\<forall>request \<in> set (requests ext c op). sint (Timeout request) = 10 * 1000000000)) \<and>
   map Timeout (requests ext c OpPing) = [defaultTimeout ext]"
proof -
  have "Timeout request = defaultTimeout ext"
    if "call_request ext c method path data timeout = Inr request" "timeout = 0"
    using call_request_Timeout [OF that(1)] that(2) by (simp add: call_timeout_def)
  moreover have "sint (Timeout request) = sint timeout * 1000000000"
    if "call_request ext c method path data timeout = Inr request" "timeout \<noteq> 0"
      "- 9223372036 \<le> sint timeout" "sint timeout \<le> 9223372036"
    using call_request_Timeout [OF that(1)] that(2) sint_seconds [OF that(3) that(4)]
    by (simp add: call_timeout_def)
  moreover have "sint (Timeout r) = 10 * 1000000000"
    if a: "op \<noteq> OpPing" and b: "r \<in> set (requests ext c op)" for r
  proof -
    obtain m p d where "call_request ext c m p d 10 = Inr r"
      using requests_dispatched [OF a b] by blast
    then have "Timeout r = 10 * Second"
      using call_request_Timeout by (fastforce simp: call_timeout_def)
    then show ?thesis
      by (simp add: Second_def)
  qed
  moreover have "map Timeout (requests ext c OpPing) = [defaultTimeout ext]"
    using requests_Ping [of ext c] by simp
  ultimately show ?thesis
    by blast
qed

theorem timeout_seconds_witness:
  "map_sum Error_msg (\<lambda>request. sint (Timeout request))
     (call_request (stub_extern 200 \<lparr>Code = 0, Message = [], Data = []\<rparr>) (stub_client False)
        GET ''/p'' (VMap Map.empty) 0) = Inr 5000000000 \<and>
   map_sum Error_msg (\<lambda>request. sint (Timeout request))
     (call_request (stub_extern 200 \<lparr>Code = 0, Message = [], Data = []\<rparr>) (stub_client False)
        GET ''/p'' (VMap Map.empty) 30) = Inr 30000000000 \<and>
   map (\<lambda>request. sint (Timeout request))
     (requests (stub_extern 200 \<lparr>Code = 0, Message = [], Data = []\<rparr>) (stub_client False) OpGetToken)
     = [10000000000]"
proof -
  let ?e = "stub_extern 200 \<lparr>Code = 0, Message = [], Data = []\<rparr>"
  let ?c = "stub_client False"
  have d: "defaultTimeout ?e = 5000000000"
    by (simp add: stub_extern_def Second_def)
  obtain r0 where r0: "call_request ?e ?c GET ''/p'' (VMap Map.empty) 0 = Inr r0"
    using stub_call_request by blast
  obtain r30 where r30: "call_request ?e ?c GET ''/p'' (VMap Map.empty) 30 = Inr r30"
    using stub_call_request by blast
  obtain r where r: "requests ?e ?c OpGetToken = [r]"
    using stub_requests_GetToken by blast
  have "Timeout r0 = 5000000000"
    using timeout_seconds [of ?e ?c GET "''/p''" "VMap Map.empty" 0 r0 OpGetToken] r0 d by simp
  moreover have "sint (Timeout r30) = 30000000000"
    using timeout_seconds [of ?e ?c GET "''/p''" "VMap Map.empty" 30 r30 OpGetToken] r30 by simp
  moreover have "sint (Timeout r) = 10000000000"
    using timeout_seconds [of ?e ?c GET "''/p''" "VMap Map.empty" 30 r30 OpGetToken] r by simp
  ultimately show ?thesis
    using r0 r30 r by simp
qed

section \<open>C8: decoding the payload\<close>

text \<open>
  C8. When the server answers a dispatched call with status 200 and an envelope of code 0
  that gorequest parsed without error, the call decodes the envelope's data into the
  destination and returns with no error, and the two wrappers return the decoded map and
  the decoded slice to their caller with no error. If the decoding fails, the call returns
  an error that wraps the decoder's error and whose text carries the payload (as
  \<^verbatim>\<open>%v\<close> prints a byte slice that has no \<^verbatim>\<open>String\<close> method: the bytes in
  decimal); the two wrappers then hand their caller that error with an empty map and an
  empty slice, and nothing of the payload.
\<close>

theorem status_200_code_0_decodes:
  assumes "call_request ext c method path data timeout = Inr request"
    and "EndStruct ext request = (Some rsp, respBody, [], baseResult)"
    and "StatusCode rsp = 200" and "Code baseResult = 0"
  shows "(\<forall>v. decode (Data baseResult) = Inr v \<longrightarrow>
            snd (call ext c method path data timeout decode) = Returns (Inr v)) \<and>
    (\<forall>err. decode (Data baseResult) = Inl err \<longrightarrow>
       snd (call ext c method path data timeout decode) =
         Returns (Inl (Error (''http request response body data not valid: '' @ Error_msg err
                              @ '', data=`'' @ fmt_bytes (Data baseResult) @ ''`'') (Some err)))) \<and>
    (\<forall>v. Unmarshal_map ext (Data baseResult) = Inr v \<longrightarrow>
       snd (callWithReturnMapData ext c method path data timeout) = Returns (v, None)) \<and>
    (\<forall>v. Unmarshal_slice ext (Data baseResult) = Inr v \<longrightarrow>
       snd (callWithReturnSliceMapData ext c method path data timeout) = Returns (v, None)) \<and>
    (\<forall>err. Unmarshal_map ext (Data baseResult) = Inl err \<longrightarrow>
       snd (callWithReturnMapData ext c method path data timeout) =
         Returns (Map.empty,
           Some (Error (''http request response body data not valid: '' @ Error_msg err
                        @ '', data=`'' @ fmt_bytes (Data baseResult) @ ''`'') (Some err)))) \<and>
    (\<forall>err. Unmarshal_slice ext (Data baseResult) = Inl err \<longrightarrow>
       snd (callWithReturnSliceMapData ext c method path data timeout) =
         Returns ([],
           Some (Error (''http request response body data not valid: '' @ Error_msg err
                        @ '', data=`'' @ fmt_bytes (Data baseResult) @ ''`'') (Some err))))"
  using assms
  by (simp add: call_def call_response_def callWithReturnMapData_def callWithReturnSliceMapData_def)

theorem status_200_code_0_decodes_witness:
  "snd (call (stub_extern 200 \<lparr>Code = 0, Message = [], Data = ''token''\<rparr>) (stub_client False)
          GET ''/p'' (VMap Map.empty) 10
          (Unmarshal_map (stub_extern 200 \<lparr>Code = 0, Message = [], Data = []\<rparr>)))
     = Returns (Inr [''token'' \<mapsto> VString ''abc'']) \<and>
   snd (call (stub_extern 200 \<lparr>Code = 0, Message = [], Data = ''bad''\<rparr>) (stub_client False)
          GET ''/p'' (VMap Map.empty) 10
          (Unmarshal_map (stub_extern 200 \<lparr>Code = 0, Message = [], Data = []\<rparr>)))
     = Returns (Inl (Error
         ''http request response body data not valid: unexpected end of JSON input, data=`[98 97 100]`''
         (Some (Error ''unexpected end of JSON input'' None)))) \<and>
   snd (callWithReturnMapData (stub_extern 200 \<lparr>Code = 0, Message = [], Data = ''token''\<rparr>)
          (stub_client False) GET ''/p'' (VMap Map.empty) 10)
     = Returns ([''token'' \<mapsto> VString ''abc''], None) \<and>
   snd (callWithReturnSliceMapData (stub_extern 200 \<lparr>Code = 0, Message = [], Data = ''subjects''\<rparr>)
          (stub_client False) GET ''/p'' (VMap Map.empty) 10)
     = Returns ([[''subject'' \<mapsto> VString ''admin'']], None) \<and>
   snd (callWithReturnMapData (stub_extern 200 \<lparr>Code = 0, Message = [], Data = ''bad''\<rparr>)
          (stub_client False) GET ''/p'' (VMap Map.empty) 10)
     = Returns (Map.empty, Some (Error
         ''http request response body data not valid: unexpected end of JSON input, data=`[98 97 100]`''
         (Some (Error ''unexpected end of JSON input'' None)))) \<and>
   snd (callWithReturnSliceMapData (stub_extern 200 \<lparr>Code = 0, Message = [], Data = ''bad''\<rparr>)
          (stub_client False) GET ''/p'' (VMap Map.empty) 10)
     = Returns ([], Some (Error
         ''http request response body data not valid: unexpected end of JSON input, data=`[98 97 100]`''
         (Some (Error ''unexpected end of JSON input'' None))))"
proof -
  let ?e = "\<lambda>payload. stub_extern 200 \<lparr>Code = 0, Message = [], Data = payload\<rparr>"
  let ?d = "Unmarshal_map (?e [])"
  have um: "Unmarshal_map (?e payload) ''token'' = Inr [''token'' \<mapsto> VString ''abc'']"
    "Unmarshal_map (?e payload) ''bad'' = Inl (Error ''unexpected end of JSON input'' None)"
    "Unmarshal_slice (?e payload) ''subjects'' = Inr [[''subject'' \<mapsto> VString ''admin'']]"
    "Unmarshal_slice (?e payload) ''bad'' = Inl (Error ''unexpected end of JSON input'' None)"
    for payload
    by (simp_all add: stub_extern_def errors_New_def)
  have b: "fmt_bytes ''bad'' = ''[98 97 100]''"
    by (simp add: fmt_bytes_def fmt_slice_def format_defs)
  note token = status_200_code_0_decodes [OF
      stub_call_request [of 200 "\<lparr>Code = 0, Message = [], Data = ''token''\<rparr>" "''/p''" 10]
      stub_EndStruct, where decode = ?d]
  note subjects = status_200_code_0_decodes [OF
      stub_call_request [of 200 "\<lparr>Code = 0, Message = [], Data = ''subjects''\<rparr>" "''/p''" 10]
      stub_EndStruct, where decode = ?d]
  note bad = status_200_code_0_decodes [OF
      stub_call_request [of 200 "\<lparr>Code = 0, Message = [], Data = ''bad''\<rparr>" "''/p''" 10]
      stub_EndStruct, where decode = ?d]
  show ?thesis
    using token subjects bad by (simp add: um b)
qed

section \<open>C9: debug and force\<close>

text \<open>
  C9, as stated, fails: with the debug flag false, a GET whose payload has a string member
  \<^verbatim>\<open>debug\<close> set to \<^verbatim>\<open>true\<close> (here through \<open>PolicyList\<close>) still has
  \<^verbatim>\<open>debug=true\<close> in its query data.
\<close>

theorem debug_from_payload_counterexample:
  "\<not> isApiDebugEnabled (stub_client False) \<and>
   map (\<lambda>request. QueryData request ''debug'')
     (requests (stub_extern 200 \<lparr>Code = 0, Message = [], Data = []\<rparr>) (stub_client False)
        (OpPolicyList (VMap [''debug'' \<mapsto> VString ''true''])))
   = [[''true'']]"
  by (simp add: PolicyList_def fst_callWithReturnMapData request_defs stub_defs)

text \<open>
  C9, amended. The dispatcher appends \<^verbatim>\<open>debug=true\<close> to the query data of the request
  exactly when the client's debug flag is true, after whatever the payload of a GET
  contributed (a POST contributes nothing): with the flag true the query data contains
  \<^verbatim>\<open>debug=true\<close>, with the flag false it holds for \<^verbatim>\<open>debug\<close> only what the
  payload supplied. The same holds for the force flag and \<^verbatim>\<open>force=true\<close>. Both flags
  are set by \<open>NewIAMBackendClient\<close> from the environment variables, and building a
  request does not read the environment.
\<close>

theorem debug_force_query:
  "(call_request ext c method path data timeout = Inr request \<longrightarrow>
      QueryData request ''debug'' =
        (if method = GET
         then foldl (\<lambda>q (k, v). Values_Add k v q) (\<lambda>k. []) (query_pairs ext data) ''debug''
         else [])
        @ (if isApiDebugEnabled c then [''true''] else []) \<and>
      QueryData request ''force'' =
        (if method = GET
         then foldl (\<lambda>q (k, v). Values_Add k v q) (\<lambda>k. []) (query_pairs ext data) ''force''
         else [])
        @ (if isApiForceEnabled c then [''true''] else []) \<and>
      (isApiDebugEnabled c \<longrightarrow> ''true'' \<in> set (QueryData request ''debug'')) \<and>
      (isApiForceEnabled c \<longrightarrow> ''true'' \<in> set (QueryData request ''force'')) \<and>
      (\<not> isApiDebugEnabled c \<and> method \<noteq> GET \<longrightarrow> QueryData request ''debug'' = []) \<and>
      (\<not> isApiForceEnabled c \<and> method \<noteq> GET \<longrightarrow> QueryData request ''force'' = [])) \<and>
   isApiDebugEnabled (NewIAMBackendClient ext host isAPIGateway system code secret) =
     (Getenv ext ''IAM_API_DEBUG'' = ''true'' \<or> Getenv ext ''BKAPP_IAM_API_DEBUG'' = ''true'') \<and>
   isApiForceEnabled (NewIAMBackendClient ext host isAPIGateway system code secret) =
     (Getenv ext ''IAM_API_FORCE'' = ''true'' \<or> Getenv ext ''BKAPP_IAM_API_FORCE'' = ''true'') \<and>
   call_request (ext\<lparr>Getenv := environment\<rparr>) c method path data timeout =
     call_request ext c method path data timeout"
proof -
  have "isApiDebugEnabled (NewIAMBackendClient ext host isAPIGateway system code secret) =
     (Getenv ext ''IAM_API_DEBUG'' = ''true'' \<or> Getenv ext ''BKAPP_IAM_API_DEBUG'' = ''true'')"
    by (simp add: NewIAMBackendClient_def)
  moreover have "isApiForceEnabled (NewIAMBackendClient ext host isAPIGateway system code secret) =
     (Getenv ext ''IAM_API_FORCE'' = ''true'' \<or> Getenv ext ''BKAPP_IAM_API_FORCE'' = ''true'')"
    by (simp add: NewIAMBackendClient_def)
  moreover note call_request_Getenv [of environment ext c "method" path data timeout]
  moreover have "QueryData request ''debug'' =
        (if method = GET
         then foldl (\<lambda>q (k, v). Values_Add k v q) (\<lambda>k. []) (query_pairs ext data) ''debug''
         else [])
        @ (if isApiDebugEnabled c then [''true''] else [])"
    and "QueryData request ''force'' =
        (if method = GET
         then foldl (\<lambda>q (k, v). Values_Add k v q) (\<lambda>k. []) (query_pairs ext data) ''force''
         else [])
        @ (if isApiForceEnabled c then [''true''] else [])"
    if "call_request ext c method path data timeout = Inr request"
    using call_request_QueryData [OF that, of "''debug''"]
      call_request_QueryData [OF that, of "''force''"] by simp_all
  ultimately show ?thesis
    by simp
qed

theorem debug_force_query_witness:
  "map_sum Error_msg (\<lambda>request. (QueryData request ''debug'', QueryData request ''force''))
     (call_request (stub_extern 200 \<lparr>Code = 0, Message = [], Data = []\<rparr>)
        (NewIAMBackendClient
           ((stub_extern 200 \<lparr>Code = 0, Message = [], Data = []\<rparr>)
              \<lparr>Getenv := (\<lambda>name. if name = ''IAM_API_DEBUG'' then ''true'' else [])\<rparr>)
           ''http://iam.example/'' False ''demo'' ''app'' ''secret'')
        POST ''/api/v1/policy/query'' VNil 10)
   = Inr ([''true''], [])"
proof -
  let ?e = "stub_extern 200 \<lparr>Code = 0, Message = [], Data = []\<rparr>"
  let ?env = "\<lambda>name. if name = ''IAM_API_DEBUG'' then ''true'' else []"
  let ?c = "NewIAMBackendClient (?e\<lparr>Getenv := ?env\<rparr>) ''http://iam.example/'' False ''demo'' ''app'' ''secret''"
  have flags: "isApiDebugEnabled ?c" "\<not> isApiForceEnabled ?c"
    using debug_force_query [where ext = "?e\<lparr>Getenv := ?env\<rparr>"
        and host = "''http://iam.example/''" and isAPIGateway = False and system = "''demo''"
        and code = "''app''" and secret = "''secret''"]
    by simp_all
  have "\<not> IsAPIGateway ?c"
    by (simp add: NewIAMBackendClient_def)
  then obtain request where r: "call_request ?e ?c POST ''/api/v1/policy/query'' VNil 10 = Inr request"
    using call_request_direct by blast
  have "QueryData request ''debug'' = [''true'']" "QueryData request ''force'' = []"
    using debug_force_query [of ?e ?c POST "''/api/v1/policy/query''" VNil 10 request] r flags
    by (simp_all add: GET_def POST_def)
  then show ?thesis
    using r by simp
qed

section \<open>C10: host and request URLs\<close>

text \<open>
  C10. The client built by \<open>NewIAMBackendClient\<close> stores the host with every trailing
  \<^verbatim>\<open>/\<close> removed: the input is the stored host followed by slashes only, and the stored
  host does not end in a slash. No method returns or alters the client, so this holds as long
  as the client is used. The target of every POST or GET request the dispatcher builds is this
  host followed by the path, and the target of the request of \<open>Ping\<close> is this host
  followed by \<^verbatim>\<open>/ping\<close>; the last byte before the path is thus never a slash.
\<close>

theorem Host_trimmed_urls:
  assumes "c = NewIAMBackendClient ext host isAPIGateway system code secret"
  shows "Host c = TrimRight host ''/'' \<and>
    (\<exists>n. host = Host c @ replicate n CHR ''/'') \<and>
    (\<forall>u. Host c \<noteq> u @ ''/'') \<and>
    (\<forall>ext' method path data timeout request.
       (method = POST \<or> method = GET) \<and>
       call_request ext' c method path data timeout = Inr request \<longrightarrow>
       Url request = Host c @ path) \<and>
    (\<forall>ext'. map Url (requests ext' c OpPing) = [Host c @ ''/ping''])"
proof -
  have h: "Host c = TrimRight host ''/''"
    using assms by (simp add: NewIAMBackendClient_def)
  have "\<exists>n. host = Host c @ replicate n CHR ''/''"
    unfolding h by (rule TrimRight_decompose)
  moreover have "\<forall>u. Host c \<noteq> u @ ''/''"
    unfolding h by (simp add: TrimRight_no_suffix)
  moreover have "Url request = Host c @ p"
    if "m = POST \<or> m = GET"
      and "call_request ext' c m p d t = Inr request"
    for ext' m p d t request
    using call_request_Url [OF that(2) that(1)] by simp
  moreover have "map Url (requests ext' c OpPing) = [Host c @ ''/ping'']" for ext'
    using requests_Ping [of ext' c] by simp
  ultimately show ?thesis
    using h by blast
qed

theorem Host_trimmed_urls_witness:
  "Host (stub_client False) = ''http://iam.example'' \<and>
   ''http://iam.example//'' = Host (stub_client False) @ replicate 2 CHR ''/'' \<and>
   map Url (requests (stub_extern 200 \<lparr>Code = 0, Message = [], Data = []\<rparr>) (stub_client False)
              (OpPolicyList (VMap Map.empty)))
     = [''http://iam.example/api/v1/systems/demo/policies''] \<and>
   map Url (requests (stub_extern 200 \<lparr>Code = 0, Message = [], Data = []\<rparr>) (stub_client False) OpPing)
     = [''http://iam.example/ping'']"
proof -
  let ?e = "stub_extern 200 \<lparr>Code = 0, Message = [], Data = []\<rparr>"
  have c: "stub_client False = NewIAMBackendClient ?e ''http://iam.example//'' False ''demo'' ''app'' ''secret''"
    by (simp add: stub_client_def)
  have t: "TrimRight ''http://iam.example//'' ''/'' = ''http://iam.example''"
    by (simp add: TrimRight_def)
  note T = Host_trimmed_urls [OF c]
  have h: "Host (stub_client False) = ''http://iam.example''"
    using T t by simp
  obtain request where r: "call_request ?e (stub_client False) GET ''/api/v1/systems/demo/policies''
      (VMap Map.empty) 10 = Inr request"
    using stub_call_request by blast
  then have "Url request = Host (stub_client False) @ ''/api/v1/systems/demo/policies''"
    using T by blast
  moreover have "requests ?e (stub_client False) (OpPolicyList (VMap Map.empty)) = [request]"
    using r by (simp add: PolicyList_def fst_callWithReturnMapData stub_client_def NewIAMBackendClient_def)
  moreover have "map Url (requests ?e (stub_client False) OpPing) = [Host (stub_client False) @ ''/ping'']"
    using T by blast
  ultimately show ?thesis
    using h by (simp add: numeral_2_eq_2)
qed

end
